theory Spec2Isabelle
  imports Main "HOL-Library.Word" "HOL-Library.Sublist"
begin

section \<open>Python values used by the service\<close>

text \<open>
  The service is \<^verbatim>\<open>Printer-Controller/app/main.py\<close> (the file under
  \<^verbatim>\<open>python/app/main.py\<close> is an earlier copy holding the same printer endpoints).
  A \<^verbatim>\<open>bytes\<close> value is a list of 8-bit words. A \<^verbatim>\<open>str\<close> is a \<open>string\<close>: each
  character is a code point below 256, which is what the header values of a response
  are made of. \<^verbatim>\<open>str.encode()\<close> is UTF-8: a code point below 128 is one byte, any
  other code point below 256 is two bytes.
\<close>

type_synonym byte = "8 word"

definition utf8 :: "char \<Rightarrow> byte list" where
  "utf8 c =
     (let n = (of_char c :: nat)
      in if n < 128 then [of_nat n] else [of_nat (192 + n div 64), of_nat (128 + n mod 64)])"

definition encode :: "string \<Rightarrow> byte list" where
  "encode s = concat (map utf8 s)"

text \<open>
  Exceptions are values. \<open>req_exc\<close> holds what the \<^verbatim>\<open>requests\<close> library raises:
  \<^verbatim>\<open>requests.exceptions.Timeout\<close>, \<^verbatim>\<open>ConnectionError\<close>, and any other subclass of
  \<^verbatim>\<open>RequestException\<close>. Every constructor of \<open>exc\<close> is a subclass of Python's
  \<^verbatim>\<open>Exception\<close>. The string is \<^verbatim>\<open>str(e)\<close>; \<open>HTTPException\<close> is FastAPI's, with
  its status code and its detail.
\<close>

datatype req_exc =
    Timeout string
  | ConnectionError string
  | OtherRequestError string

datatype exc =
    RequestException req_exc
  | HTTPException int string
  | KeyError string
  | TypeError string
  | AttributeError string
  | ValidationError string
  | Exception string

fun is_request_exception :: "exc \<Rightarrow> bool" where
  "is_request_exception (RequestException r) = True"
| "is_request_exception e = False"


fun str_req_exc :: "req_exc \<Rightarrow> string" where
  "str_req_exc (Timeout m) = m"
| "str_req_exc (ConnectionError m) = m"
| "str_req_exc (OtherRequestError m) = m"

fun str_exc :: "exc \<Rightarrow> string" where
  "str_exc (RequestException r) = str_req_exc r"
| "str_exc (HTTPException c d) = d"
| "str_exc (KeyError m) = m"
| "str_exc (TypeError m) = m"
| "str_exc (AttributeError m) = m"
| "str_exc (ValidationError m) = m"
| "str_exc (Exception m) = m"

definition try_bind :: "exc + 'a \<Rightarrow> ('a \<Rightarrow> exc + 'b) \<Rightarrow> exc + 'b" where
  "try_bind r f = (case r of Inl e \<Rightarrow> Inl e | Inr v \<Rightarrow> f v)"

subsection \<open>Searching and slicing sequences\<close>

text \<open>
  \<^verbatim>\<open>buf.find(sub)\<close> is the lowest index at which \<^verbatim>\<open>sub\<close> occurs in \<^verbatim>\<open>buf\<close>, or
  \<open>-1\<close>; \<^verbatim>\<open>sub in buf\<close> is the same search. They are the same on \<^verbatim>\<open>bytes\<close> and
  on \<^verbatim>\<open>str\<close>.
\<close>

fun startswith :: "'a list \<Rightarrow> 'a list \<Rightarrow> bool" where
  "startswith xs [] = True"
| "startswith [] (y # ys) = False"
| "startswith (x # xs) (y # ys) = (x = y \<and> startswith xs ys)"

fun find_from :: "nat \<Rightarrow> 'a list \<Rightarrow> 'a list \<Rightarrow> int" where
  "find_from i [] sub = (if sub = [] then int i else - 1)"
| "find_from i (x # xs) sub =
     (if startswith (x # xs) sub then int i else find_from (Suc i) xs sub)"

definition py_find :: "'a list \<Rightarrow> 'a list \<Rightarrow> int" where
  "py_find buf sub = find_from 0 buf sub"

definition py_in :: "'a list \<Rightarrow> 'a list \<Rightarrow> bool" where
  "py_in sub buf = (py_find buf sub \<noteq> - 1)"

text \<open>
  \<^verbatim>\<open>xs[lo:hi]\<close> and \<^verbatim>\<open>xs[lo:]\<close>: a negative index counts from the end, and both
  ends are clamped to the sequence; a slice whose end is not after its start is empty.
\<close>

definition clamp_index :: "nat \<Rightarrow> int \<Rightarrow> nat" where
  "clamp_index n i = (if i < 0 then nat (max 0 (int n + i)) else min (nat i) n)"

definition py_slice :: "'a list \<Rightarrow> int \<Rightarrow> int \<Rightarrow> 'a list" where
  "py_slice xs lo hi =
     drop (clamp_index (length xs) lo) (take (clamp_index (length xs) hi) xs)"

definition py_slice_from :: "'a list \<Rightarrow> int \<Rightarrow> 'a list" where
  "py_slice_from xs lo = drop (clamp_index (length xs) lo) xs"

subsection \<open>Strings\<close>

text \<open>
  \<^verbatim>\<open>str.lower()\<close> and \<^verbatim>\<open>str.strip()\<close> on the code points below 256. The capitals
  are \<open>A\<close> to \<open>Z\<close> (65 to 90) and the codes 192 to 222 without 215, the
  multiplication sign; each is lowered by adding 32. The whitespace characters are
  the codes 9 to 13, 28 to 32, 133 and 160.
\<close>

definition lower_char :: "char \<Rightarrow> char" where
  "lower_char c =
     (let n = (of_char c :: nat)
      in if (65 \<le> n \<and> n \<le> 90) \<or> (192 \<le> n \<and> n \<le> 222 \<and> n \<noteq> 215)
         then char_of (n + 32) else c)"

definition lower :: "string \<Rightarrow> string" where
  "lower s = map lower_char s"

definition is_space :: "char \<Rightarrow> bool" where
  "is_space c =
     (let n = (of_char c :: nat)
      in (9 \<le> n \<and> n \<le> 13) \<or> (28 \<le> n \<and> n \<le> 32) \<or> n = 133 \<or> n = 160)"

definition strip :: "string \<Rightarrow> string" where
  "strip s = rev (dropWhile is_space (rev (dropWhile is_space s)))"

text \<open>
  \<^verbatim>\<open>s.split(sep)\<close> for a non-empty separator: the pieces between the occurrences of
  \<^verbatim>\<open>sep\<close>, found from the left. \<open>skip\<close> counts the characters of a separator that
  are still to be passed over.
\<close>

fun split_from :: "string \<Rightarrow> nat \<Rightarrow> string \<Rightarrow> string \<Rightarrow> string list" where
  "split_from sep skip cur [] = [cur]"
| "split_from sep (Suc skip) cur (c # cs) = split_from sep skip cur cs"
| "split_from sep 0 cur (c # cs) =
     (if startswith (c # cs) sep then cur # split_from sep (length sep - 1) [] cs
      else split_from sep 0 (cur @ [c]) cs)"

definition py_split :: "string \<Rightarrow> string \<Rightarrow> string list" where
  "py_split s sep = split_from sep 0 [] s"

text \<open>The decimal text of an integer, as an f-string prints it.\<close>

fun str_nat :: "nat \<Rightarrow> string" where
  "str_nat n =
     (if n < 10 then [char_of (48 + n)] else str_nat (n div 10) @ [char_of (48 + n mod 10)])"

definition str_int :: "int \<Rightarrow> string" where
  "str_int i = (if i < 0 then ''-'' @ str_nat (nat (- i)) else str_nat (nat i))"

subsection \<open>JSON values\<close>

text \<open>
  What \<^verbatim>\<open>response.json()\<close> returns and what the endpoints return. A float is kept as
  its literal text: the service does no arithmetic on it. An object is the list of its
  entries, each key once.
\<close>

datatype json =
    JNull
  | JBool bool
  | JInt int
  | JFloat string
  | JStr string
  | JArr "json list"
  | JObj "(string \<times> json) list"

text \<open>\<^verbatim>\<open>v[key]\<close> with a \<^verbatim>\<open>str\<close> key.\<close>

fun subscript :: "json \<Rightarrow> string \<Rightarrow> exc + json" where
  "subscript (JObj kvs) key =
     (case map_of kvs key of None \<Rightarrow> Inl (KeyError key) | Some v \<Rightarrow> Inr v)"
| "subscript (JArr xs) key = Inl (TypeError ''list indices must be integers or slices, not str'')"
| "subscript (JStr s) key = Inl (TypeError ''string indices must be integers, not str'')"
| "subscript v key = Inl (TypeError ''object is not subscriptable'')"

text \<open>\<^verbatim>\<open>key in v\<close> with a \<^verbatim>\<open>str\<close> key.\<close>

fun key_in :: "string \<Rightarrow> json \<Rightarrow> exc + bool" where
  "key_in key (JObj kvs) = Inr (key \<in> set (map fst kvs))"
| "key_in key (JArr xs) = Inr (JStr key \<in> set xs)"
| "key_in key (JStr s) = Inr (py_in key s)"
| "key_in key v = Inl (TypeError ''argument is not iterable'')"

text \<open>Iterating a value: a list gives its items, a dict its keys, a string its characters.\<close>

fun py_iter :: "json \<Rightarrow> exc + json list" where
  "py_iter (JArr xs) = Inr xs"
| "py_iter (JObj kvs) = Inr (map (\<lambda>kv. JStr (fst kv)) kvs)"
| "py_iter (JStr s) = Inr (map (\<lambda>c. JStr [c]) s)"
| "py_iter v = Inl (TypeError ''object is not iterable'')"

fun try_map :: "('a \<Rightarrow> exc + 'b) \<Rightarrow> 'a list \<Rightarrow> exc + 'b list" where
  "try_map f [] = Inr []"
| "try_map f (x # xs) =
     (case f x of Inl e \<Rightarrow> Inl e
      | Inr y \<Rightarrow> (case try_map f xs of Inl e \<Rightarrow> Inl e | Inr ys \<Rightarrow> Inr (y # ys)))"

text \<open>\<^verbatim>\<open>sep.join(v)\<close>: every item has to be a \<^verbatim>\<open>str\<close>.\<close>

fun intercalate :: "string \<Rightarrow> string list \<Rightarrow> string" where
  "intercalate sep [] = []"
| "intercalate sep [s] = s"
| "intercalate sep (s # t # ts) = s @ sep @ intercalate sep (t # ts)"

definition as_str :: "json \<Rightarrow> exc + string" where
  "as_str v =
     (case v of JStr s \<Rightarrow> Inr s | _ \<Rightarrow> Inl (TypeError ''sequence item: expected str instance''))"

definition py_join :: "string \<Rightarrow> json \<Rightarrow> exc + string" where
  "py_join sep v =
     try_bind (py_iter v) (\<lambda>items.
     try_bind (try_map as_str items) (\<lambda>strs. Inr (intercalate sep strs)))"

section \<open>The upstream services\<close>

text \<open>
  A response of \<^verbatim>\<open>requests\<close>: its status code, its headers, what \<^verbatim>\<open>response.json()\<close>
  gives (a value or an exception) and what \<^verbatim>\<open>response.iter_content\<close> yields
  (\<open>Inr chunk\<close> is a chunk, \<open>Inl e\<close> is the iterator raising \<open>e\<close>).
  The headers are the header lines as received. \<^verbatim>\<open>response.headers[name]\<close> matches
  the names without regard to case and joins the values of a repeated header with a
  comma and a space; it raises \<^verbatim>\<open>KeyError\<close> when no line has the name.
\<close>

record response =
  status_code :: int
  headers :: "(string \<times> string) list"
  json_body :: "exc + json"
  iter_content :: "(exc + byte list) list"

definition header :: "(string \<times> string) list \<Rightarrow> string \<Rightarrow> exc + string" where
  "header hs name =
     (let values = map snd (filter (\<lambda>kv. lower (fst kv) = lower name) hs)
      in if values = [] then Inl (KeyError name) else Inr (intercalate '', '' values))"

text \<open>
  The outside world answers the \<open>n\<close>-th request the process makes; the log holds
  the requests made so far, in order. \<^verbatim>\<open>requests.get\<close> and \<^verbatim>\<open>requests.post\<close> add one
  request to the log and return a response or raise a \<^verbatim>\<open>RequestException\<close>.
  The API-key header and the timeout argument are not part of the model.
\<close>

datatype request = GET string | POST string json

type_synonym upstream = "nat \<Rightarrow> request \<Rightarrow> req_exc + response"

definition requests_send ::
  "upstream \<Rightarrow> request list \<Rightarrow> request \<Rightarrow> (exc + response) \<times> request list" where
  "requests_send up log req =
     ((case up (length log) req of Inl e \<Rightarrow> Inl (RequestException e) | Inr r \<Rightarrow> Inr r),
      log @ [req])"

text \<open>The two addresses, as the source has them (their values were removed from it).\<close>

definition OCTOPRINT_URL :: string where
  "OCTOPRINT_URL = ''i''"

definition OCTOPRINT_WEBCAM_URL :: string where
  "OCTOPRINT_WEBCAM_URL = []"

section \<open>The frame extractor\<close>

definition SOI :: "byte list" where
  "SOI = [0xFF, 0xD8]"

definition EOI :: "byte list" where
  "EOI = [0xFF, 0xD9]"

text \<open>
  The loop of \<^verbatim>\<open>get_camera_frame\<close> (lines 77 to 91), over the items that
  \<^verbatim>\<open>response.iter_content\<close> yields: \<open>Inr chunk\<close> is a chunk, \<open>Inl e\<close> is the
  iterator raising \<open>e\<close>. The result is the returned value (\<open>None\<close> when the stream
  ends and the function falls off its end) together with the local \<^verbatim>\<open>buffer\<close> as
  the last assignment leaves it.
\<close>

fun frame_loop ::
  "byte list \<Rightarrow> byte list \<Rightarrow> (exc + byte list) list \<Rightarrow> exc + (byte list option \<times> byte list)"
where
  "frame_loop delimiter buffer [] = Inr (None, buffer)"
| "frame_loop delimiter buffer (Inl e # rest) = Inl e"
| "frame_loop delimiter buffer (Inr chunk # rest) =
     (let buffer = buffer @ chunk in
      if py_in delimiter buffer then
        (let frame_start = py_find buffer SOI;
             frame_end = py_find buffer EOI
         in if frame_start \<noteq> - 1 \<and> frame_end \<noteq> - 1 then
              (let frame = py_slice buffer frame_start (frame_end + 2);
                   buffer = py_slice_from buffer (frame_end + 2)
               in Inr (Some frame, buffer))
            else frame_loop delimiter buffer rest)
      else frame_loop delimiter buffer rest)"

text \<open>
  \<^verbatim>\<open>get_camera_frame\<close>: \<open>camera_frame_try\<close> is the body of the \<^verbatim>\<open>try\<close> (lines 66
  to 91) on what \<^verbatim>\<open>requests.get\<close> gave; the handler \<^verbatim>\<open>except Exception\<close> turns every
  exception into the value \<open>None\<close>.
\<close>

definition camera_frame_try :: "exc + response \<Rightarrow> exc + byte list option" where
  "camera_frame_try got =
     try_bind got (\<lambda>response.
       if status_code response \<noteq> 200 then
         Inl (Exception (''Unable to connect to the camera stream. Status code: ''
                @ str_int (status_code response)))
       else
         try_bind (header (headers response) ''Content-Type'') (\<lambda>content_type.
           let boundary = last (py_split content_type ''boundary='');
               delimiter = ''--'' @ boundary
           in try_bind (frame_loop (encode delimiter) [] (iter_content response))
                (\<lambda>(frame, buffer). Inr frame)))"

definition get_camera_frame ::
  "upstream \<Rightarrow> request list \<Rightarrow> (exc + byte list option) \<times> request list" where
  "get_camera_frame up log =
     (let (got, log') = requests_send up log (GET OCTOPRINT_WEBCAM_URL)
      in ((case camera_frame_try got of Inl e \<Rightarrow> Inr None | Inr frame \<Rightarrow> Inr frame), log'))"

section \<open>The printer endpoints\<close>

text \<open>
  \<^verbatim>\<open>except requests.exceptions.RequestException as e: raise HTTPException(500, str(e))\<close>,
  the handler of every printer endpoint. Any other exception passes through it.
\<close>

definition except_request_exception :: "exc + 'a \<Rightarrow> exc + 'a" where
  "except_request_exception r =
     (case r of
        Inl e \<Rightarrow> if is_request_exception e then Inl (HTTPException 500 (str_exc e)) else Inl e
      | Inr v \<Rightarrow> Inr v)"

record printer_state =
  state :: string
  temperature :: json

text \<open>The model class requires a \<^verbatim>\<open>str\<close> and a \<^verbatim>\<open>dict\<close>.\<close>

definition PrinterState :: "json \<Rightarrow> json \<Rightarrow> exc + printer_state" where
  "PrinterState st temp =
     (case st of
        JStr s \<Rightarrow>
          (case temp of
             JObj kvs \<Rightarrow> Inr \<lparr>state = s, temperature = JObj kvs\<rparr>
           | _ \<Rightarrow> Inl (ValidationError ''temperature: value is not a valid dict''))
      | _ \<Rightarrow> Inl (ValidationError ''state: value is not a valid string''))"

definition get_printer_status ::
  "upstream \<Rightarrow> request list \<Rightarrow> (exc + printer_state) \<times> request list" where
  "get_printer_status up log =
     (let (got, log') = requests_send up log (GET (OCTOPRINT_URL @ ''/printer''))
      in (except_request_exception
           (try_bind got (\<lambda>response.
              if status_code response \<noteq> 200 then
                Inl (HTTPException (status_code response) ''Failed to fetch data from OctoPrint'')
              else
                try_bind (json_body response) (\<lambda>data.
                try_bind (subscript data ''state'') (\<lambda>st.
                try_bind (subscript st ''text'') (\<lambda>printer_state.
                try_bind (subscript data ''temperature'') (\<lambda>temperatures.
                  PrinterState printer_state temperatures)))))),
          log'))"

definition list_files :: "upstream \<Rightarrow> request list \<Rightarrow> (exc + json) \<times> request list" where
  "list_files up log =
     (let (got, log') = requests_send up log (GET (OCTOPRINT_URL @ ''/files''))
      in (except_request_exception
           (try_bind got (\<lambda>response.
              if status_code response \<noteq> 200 then
                Inl (HTTPException (status_code response)
                       ''Failed to fetch file list from OctoPrint'')
              else
                try_bind (json_body response) (\<lambda>data.
                try_bind (key_in ''files'' data) (\<lambda>present.
                  if present then
                    try_bind (subscript data ''files'') (\<lambda>files.
                    try_bind (py_iter files) (\<lambda>items.
                    try_bind (try_map (\<lambda>file. subscript file ''name'') items) (\<lambda>names.
                      Inr (JObj [(''files'', JArr names)]))))
                  else Inl (HTTPException 404 ''No files found''))))),
          log'))"

text \<open>
  \<^verbatim>\<open>move_printer\<close>. The fields of \<^verbatim>\<open>MovementControl\<close> are \<^verbatim>\<open>x\<close>, \<^verbatim>\<open>y\<close>, \<^verbatim>\<open>z\<close>, \<^verbatim>\<open>e\<close>
  and \<^verbatim>\<open>speed\<close>, optional floats. The type \<open>'f\<close> stands for \<^verbatim>\<open>float\<close> and \<open>fmt\<close> for
  the text an f-string prints for one.
\<close>

record 'f movement_control =
  move_x :: "'f option"
  move_y :: "'f option"
  move_z :: "'f option"
  move_e :: "'f option"
  move_speed :: "'f option"

definition add_word :: "('f \<Rightarrow> string) \<Rightarrow> string \<Rightarrow> 'f option \<Rightarrow> string \<Rightarrow> string" where
  "add_word fmt letter v gcode_command =
     (case v of None \<Rightarrow> gcode_command | Some d \<Rightarrow> gcode_command @ '' '' @ letter @ fmt d)"

definition move_printer ::
  "('f \<Rightarrow> string) \<Rightarrow> upstream \<Rightarrow> request list \<Rightarrow> 'f movement_control
     \<Rightarrow> (exc + json) \<times> request list" where
  "move_printer fmt up log movement =
     (let gcode_command = ''G0'';
          gcode_command = add_word fmt ''X'' (move_x movement) gcode_command;
          gcode_command = add_word fmt ''Y'' (move_y movement) gcode_command;
          gcode_command = add_word fmt ''Z'' (move_z movement) gcode_command;
          gcode_command = add_word fmt ''E'' (move_e movement) gcode_command;
          gcode_command = add_word fmt ''F'' (move_speed movement) gcode_command
      in if length gcode_command = 2 then
           (Inl (HTTPException 400 ''No movement axis specified''), log)
         else
           (let (got, log') =
                  requests_send up log
                    (POST (OCTOPRINT_URL @ ''/printer/command'')
                       (JObj [(''commands'', JArr [JStr gcode_command])]))
            in (except_request_exception
                 (try_bind got (\<lambda>response.
                    if status_code response \<noteq> 204 then
                      Inl (HTTPException (status_code response) ''Failed to move printer'')
                    else Inr (JObj [(''message'', JStr (''Sent command: '' @ gcode_command))]))),
                log')))"

section \<open>The chat webhook\<close>

text \<open>
  \<^verbatim>\<open>whatsapp_webhook\<close>. The result is the list of messages put into the
  \<^verbatim>\<open>MessagingResponse\<close>; its rendering as XML is Twilio's. \<open>str_dict\<close> is the text
  an f-string prints for the temperature dict.
\<close>

definition help_message :: string where
  "help_message = ''Send 'status' to get printer status or 'files' to list available files.''"

text \<open>
  \<^verbatim>\<open>form_data.get(key)\<close>: the form is the list of its fields in the order received,
  and a repeated field gives its last value.
\<close>

definition form_get :: "(string \<times> string) list \<Rightarrow> string \<Rightarrow> string option" where
  "form_get form_data key = map_of (rev form_data) key"

definition whatsapp_webhook ::
  "(json \<Rightarrow> string) \<Rightarrow> upstream \<Rightarrow> request list \<Rightarrow> (string \<times> string) list
     \<Rightarrow> (exc + string list) \<times> request list" where
  "whatsapp_webhook str_dict up log form_data =
     (case form_get form_data ''Body'' of
        None \<Rightarrow> (Inl (AttributeError ''NoneType object has no attribute lower''), log)
      | Some body \<Rightarrow>
          (let incoming_msg = strip (lower body) in
           if py_in ''status'' incoming_msg then
             (let (got, log') = get_printer_status up log
              in (try_bind got (\<lambda>printer_status.
                    Inr [''Printer Status: '' @ state printer_status @ [CHR 0x0A]
                           @ ''Temperatures: '' @ str_dict (temperature printer_status)]),
                  log'))
           else if py_in ''files'' incoming_msg then
             (let (got, log') = list_files up log
              in (try_bind got (\<lambda>files.
                    try_bind (subscript files ''files'') (\<lambda>names.
                    try_bind (py_join '', '' names) (\<lambda>joined.
                      Inr [''Available Files: '' @ joined]))),
                  log'))
           else (Inr [help_message], log)))"

section \<open>The camera endpoints\<close>


text \<open>
  \<^verbatim>\<open>stream_camera\<close> returns a \<^verbatim>\<open>StreamingResponse\<close> over the upstream body, with a
  fixed media type.
\<close>

record streaming_response =
  content :: "(exc + byte list) list"
  media_type :: string

definition stream_camera ::
  "upstream \<Rightarrow> request list \<Rightarrow> (exc + streaming_response) \<times> request list" where
  "stream_camera up log =
     (let (got, log') = requests_send up log (GET OCTOPRINT_WEBCAM_URL)
      in ((case try_bind got (\<lambda>response.
                  if status_code response \<noteq> 200 then
                    Inl (HTTPException 503 ''Camera stream is not available'')
                  else
                    Inr \<lparr>content = iter_content response,
                         media_type = ''multipart/x-mixed-replace; boundary=frame''\<rparr>) of
             Inl e \<Rightarrow>
               if is_request_exception e then
                 Inl (HTTPException 500 (''Error connecting to the camera stream: '' @ str_exc e))
               else Inl e
           | Inr v \<Rightarrow> Inr v),
          log'))"

text \<open>
  The status FastAPI answers with: 200 for a returned value, the status of a raised
  \<open>HTTPException\<close>, 500 for any other exception.
\<close>

definition http_status :: "exc + 'a \<Rightarrow> int" where
  "http_status r =
     (case r of Inr v \<Rightarrow> 200 | Inl (HTTPException code detail) \<Rightarrow> code | Inl e \<Rightarrow> 500)"

section \<open>Specification predicates\<close>

text \<open>
  \<open>first_at sub buf k\<close>: the sequence \<open>sub\<close> occurs in \<open>buf\<close> at position \<open>k\<close> and at
  no position before it.
\<close>

definition first_at :: "'a list \<Rightarrow> 'a list \<Rightarrow> nat \<Rightarrow> bool" where
  "first_at sub buf k \<longleftrightarrow>
     k \<le> length buf \<and> prefix sub (drop k buf) \<and> (\<forall>j<k. \<not> prefix sub (drop j buf))"


text \<open>
  \<open>pass_ready delimiter buf\<close>: the buffer holds the boundary delimiter, a start
  marker and an end marker, which is when a pass of the loop returns a frame.
\<close>

definition pass_ready :: "byte list \<Rightarrow> byte list \<Rightarrow> bool" where
  "pass_ready delimiter buf \<longleftrightarrow> sublist delimiter buf \<and> sublist SOI buf \<and> sublist EOI buf"

section \<open>The search functions meet their specification\<close>

lemma startswith_prefix: "startswith xs p \<longleftrightarrow> prefix p xs"
  by (induction xs p rule: startswith.induct) auto

lemma find_from_none: "find_from i xs sub = - 1 \<longleftrightarrow> \<not> sublist sub xs"
  by (induction xs arbitrary: i) (auto simp: startswith_prefix sublist_Cons_right)

lemma find_from_ge: "find_from i xs sub \<noteq> - 1 \<Longrightarrow> int i \<le> find_from i xs sub"
  by (induction xs arbitrary: i) (auto split: if_splits, fastforce)

lemma find_from_first: "first_at sub xs k \<Longrightarrow> find_from i xs sub = int (i + k)"
proof (induction xs arbitrary: i k)
  case Nil
  then show ?case by (auto simp: first_at_def)
next
  case (Cons x xs)
  show ?case
  proof (cases k)
    case 0
    with Cons.prems show ?thesis by (simp add: first_at_def startswith_prefix)
  next
    case (Suc k')
    from Cons.prems Suc have np: "\<not> prefix sub (x # xs)"
      by (auto simp: first_at_def dest: spec[of _ 0])
    have "first_at sub xs k'"
      unfolding first_at_def
    proof (intro conjI allI impI)
      show "k' \<le> length xs" using Cons.prems Suc by (simp add: first_at_def)
      show "prefix sub (drop k' xs)" using Cons.prems Suc by (simp add: first_at_def)
      fix j assume "j < k'"
      then have "Suc j < k" using Suc by simp
      with Cons.prems have "\<not> prefix sub (drop (Suc j) (x # xs))"
        unfolding first_at_def by blast
      then show "\<not> prefix sub (drop j xs)" by simp
    qed
    from Cons.IH[OF this, of "Suc i"] np Suc show ?thesis
      by (simp add: startswith_prefix)
  qed
qed

lemma py_find_first: "first_at sub buf k \<Longrightarrow> py_find buf sub = int k"
  by (simp add: py_find_def find_from_first)

lemma py_in_sublist: "py_in sub buf \<longleftrightarrow> sublist sub buf"
  by (simp add: py_in_def py_find_def find_from_none)


lemma find_from_first_conv: "find_from i xs sub = int (i + k) \<Longrightarrow> first_at sub xs k"
proof (induction xs arbitrary: i k)
  case Nil
  then show ?case by (auto simp: first_at_def split: if_splits)
next
  case (Cons x xs)
  show ?case
  proof (cases "prefix sub (x # xs)")
    case True
    with Cons.prems have "k = 0" by (simp add: startswith_prefix)
    with True show ?thesis by (simp add: first_at_def)
  next
    case False
    with Cons.prems have f: "find_from (Suc i) xs sub = int (i + k)"
      by (simp add: startswith_prefix)
    then have "find_from (Suc i) xs sub \<noteq> - 1" by simp
    from find_from_ge[OF this] f have "0 < k" by simp
    then obtain k' where k: "k = Suc k'" by (cases k) auto
    with f have "find_from (Suc i) xs sub = int (Suc i + k')" by simp
    from Cons.IH[OF this] have fa: "first_at sub xs k'" .
    show ?thesis
      unfolding first_at_def k
    proof (intro conjI allI impI)
      show "Suc k' \<le> length (x # xs)" using fa by (simp add: first_at_def)
      show "prefix sub (drop (Suc k') (x # xs))" using fa by (simp add: first_at_def)
      fix j assume j: "j < Suc k'"
      show "\<not> prefix sub (drop j (x # xs))"
      proof (cases j)
        case 0
        with False show ?thesis by simp
      next
        case (Suc j')
        with j fa show ?thesis by (simp add: first_at_def)
      qed
    qed
  qed
qed

lemma py_find_eq_iff: "py_find buf sub = int k \<longleftrightarrow> first_at sub buf k"
  using find_from_first_conv[of 0 buf sub k] py_find_first[of sub buf k]
  by (auto simp: py_find_def)

lemma frame_loop_skip:
  "\<not> (sublist delimiter (buffer @ chunk) \<and> sublist SOI (buffer @ chunk) \<and> sublist EOI (buffer @ chunk)) \<Longrightarrow>
   frame_loop delimiter buffer (Inr chunk # rest) = frame_loop delimiter (buffer @ chunk) rest"
  by (auto simp: py_in_sublist py_find_def find_from_none Let_def)

lemma py_slice_nonneg:
  "py_slice xs (int lo) (int hi) = drop lo (take hi xs)"
  by (simp add: py_slice_def clamp_index_def min_def)

lemma py_slice_from_nonneg:
  "py_slice_from xs (int lo) = drop lo xs"
  by (simp add: py_slice_from_def clamp_index_def min_def)

lemma frame_loop_fire:
  assumes "sublist delimiter (buffer @ chunk)"
    and "first_at SOI (buffer @ chunk) s" and "first_at EOI (buffer @ chunk) e"
  shows "frame_loop delimiter buffer (Inr chunk # rest) =
         Inr (Some (drop s (take (e + 2) (buffer @ chunk))), drop (e + 2) (buffer @ chunk))"
proof -
  define B where "B = buffer @ chunk"
  have s: "py_find B SOI = int s" using assms(2) unfolding B_def by (rule py_find_first)
  have e: "py_find B EOI = int e" using assms(3) unfolding B_def by (rule py_find_first)
  have e2: "int e + 2 = int (e + 2)" by simp
  have "frame_loop delimiter buffer (Inr chunk # rest) =
      Inr (Some (py_slice B (int s) (int e + 2)), py_slice_from B (int e + 2))"
    using assms(1) by (simp add: py_in_sublist s e Let_def flip: B_def)
  also have "\<dots> = Inr (Some (drop s (take (e + 2) B)), drop (e + 2) B)"
    unfolding e2 py_slice_nonneg py_slice_from_nonneg ..
  finally show ?thesis unfolding B_def .
qed

lemma frame_loop_run:
  assumes "\<forall>k<length pre. \<not> (sublist delimiter (buffer @ concat (take (Suc k) pre)) \<and>
              sublist SOI (buffer @ concat (take (Suc k) pre)) \<and> sublist EOI (buffer @ concat (take (Suc k) pre)))"
  shows "frame_loop delimiter buffer (map Inr pre @ rest) = frame_loop delimiter (buffer @ concat pre) rest"
  using assms
proof (induction pre arbitrary: buffer)
  case Nil
  then show ?case by simp
next
  case (Cons c pre)
  from Cons.prems[rule_format, of 0]
  have "\<not> (sublist delimiter (buffer @ c) \<and> sublist SOI (buffer @ c) \<and> sublist EOI (buffer @ c))"
    by simp
  then have step: "frame_loop delimiter buffer (Inr c # map Inr pre @ rest) =
      frame_loop delimiter (buffer @ c) (map Inr pre @ rest)"
    by (rule frame_loop_skip)
  have "\<forall>k<length pre. \<not> (sublist delimiter ((buffer @ c) @ concat (take (Suc k) pre)) \<and>
              sublist SOI ((buffer @ c) @ concat (take (Suc k) pre)) \<and> sublist EOI ((buffer @ c) @ concat (take (Suc k) pre)))"
  proof (intro allI impI)
    fix k assume "k < length pre"
    then have "Suc k < length (c # pre)" by simp
    from Cons.prems[rule_format, OF this] show "\<not> (sublist delimiter ((buffer @ c) @ concat (take (Suc k) pre)) \<and>
              sublist SOI ((buffer @ c) @ concat (take (Suc k) pre)) \<and> sublist EOI ((buffer @ c) @ concat (take (Suc k) pre)))"
      by simp
  qed
  from Cons.IH[OF this] step show ?case by simp
qed

lemma span_shape:
  assumes "first_at SOI buf s" and "first_at EOI buf e" and "s < e"
  shows "prefix SOI (drop s (take (e + 2) buf))" and "suffix EOI (drop s (take (e + 2) buf))"
proof -
  from assms(1) obtain r where r: "drop s buf = SOI @ r"
    by (auto simp: first_at_def prefix_def)
  from assms(2) obtain t where t: "drop e buf = EOI @ t"
    by (auto simp: first_at_def prefix_def)
  have ls: "length SOI = 2" and le: "length EOI = 2" by (simp_all add: SOI_def EOI_def)
  have "drop s (take (e + 2) buf) = take (e + 2 - s) (drop s buf)"
    by (simp add: drop_take)
  also have "\<dots> = SOI @ take (e - s) r"
    using assms(3) by (simp add: r ls)
  finally show "prefix SOI (drop s (take (e + 2) buf))" by simp
  have el: "e \<le> length buf" using assms(2) by (simp add: first_at_def)
  have "take (e + 2) buf = take e buf @ take 2 (drop e buf)"
    by (rule take_add)
  also have "\<dots> = take e buf @ EOI"
    by (simp add: t le)
  finally have "drop s (take (e + 2) buf) = drop s (take e buf @ EOI)" by simp
  also have "\<dots> = drop s (take e buf) @ EOI"
    using el assms(3) by simp
  finally show "suffix EOI (drop s (take (e + 2) buf))" by (simp add: suffix_def)
qed

lemma sublist_append_right: "sublist xs ys \<Longrightarrow> sublist xs (ys @ zs)"
proof -
  assume "sublist xs ys"
  then obtain ps ss where "ys = ps @ xs @ ss" by (auto simp: sublist_def)
  then have "ys @ zs = ps @ xs @ (ss @ zs)" by simp
  then show ?thesis unfolding sublist_def by blast
qed

lemma sublist_append_left: "sublist xs ys \<Longrightarrow> sublist xs (zs @ ys)"
proof -
  assume "sublist xs ys"
  then obtain ps ss where "ys = ps @ xs @ ss" by (auto simp: sublist_def)
  then have "zs @ ys = (zs @ ps) @ xs @ ss" by simp
  then show ?thesis unfolding sublist_def by blast
qed

lemma pass_ready_mono: "pass_ready d buf \<Longrightarrow> pass_ready d (pre @ buf @ post)"
  by (simp add: pass_ready_def sublist_append_right sublist_append_left)

lemma frame_loop_not_ready:
  assumes "\<not> pass_ready delimiter (buffer @ concat pre)"
  shows "frame_loop delimiter buffer (map Inr pre @ rest) = frame_loop delimiter (buffer @ concat pre) rest"
proof (rule frame_loop_run, intro allI impI)
  fix k assume "k < length pre"
  have "concat pre = concat (take (Suc k) pre) @ concat (drop (Suc k) pre)"
    by (metis append_take_drop_id concat_append)
  then have eq: "buffer @ concat pre = [] @ (buffer @ concat (take (Suc k) pre)) @ concat (drop (Suc k) pre)"
    by simp
  have "\<not> pass_ready delimiter (buffer @ concat (take (Suc k) pre))"
    using assms pass_ready_mono[of delimiter "buffer @ concat (take (Suc k) pre)" "[]" "concat (drop (Suc k) pre)"]
    unfolding eq[symmetric] by blast
  then show "\<not> (sublist delimiter (buffer @ concat (take (Suc k) pre)) \<and>
              sublist SOI (buffer @ concat (take (Suc k) pre)) \<and> sublist EOI (buffer @ concat (take (Suc k) pre)))"
    by (simp add: pass_ready_def)
qed

lemma pass_ready_code: "pass_ready d buf \<longleftrightarrow> py_in d buf \<and> py_in SOI buf \<and> py_in EOI buf"
  by (simp add: pass_ready_def py_in_sublist)

lemma frame_loop_ends:
  "\<not> pass_ready delimiter (concat chunks) \<Longrightarrow> \<exists>buffer. frame_loop delimiter [] (map Inr chunks) = Inr (None, buffer)"
  using frame_loop_not_ready[of delimiter "[]" chunks "[]"] by simp

lemma frame_loop_raises:
  "\<not> pass_ready delimiter (concat chunks) \<Longrightarrow> frame_loop delimiter [] (map Inr chunks @ Inl e # rest) = Inl e"
  using frame_loop_not_ready[of delimiter "[]" chunks "Inl e # rest"] by simp

section \<open>The frame extractor: claims C1, C2, C3\<close>

text \<open>
  Claim C1, as the code has it. The chunks are fed one by one. At the first chunk after
  which the accumulated buffer holds the boundary delimiter, a start marker and an end
  marker, and when the first end marker of that buffer lies after its first start
  marker, the extractor returns exactly one frame: the bytes from the start marker
  through the end marker. The buffer is left with the bytes after that end marker, and
  the chunks that follow are not read. The frame begins with the start marker and ends
  with the end marker.
\<close>

theorem frame_loop_emits_first_span:
  assumes "\<not> pass_ready delimiter (concat pre)"
    and "buf = concat pre @ chunk"
    and "sublist delimiter buf"
    and "first_at SOI buf s" and "first_at EOI buf e" and "s < e"
  shows "frame_loop delimiter [] (map Inr pre @ Inr chunk # rest) =
           Inr (Some (drop s (take (e + 2) buf)), drop (e + 2) buf) \<and>
         prefix SOI (drop s (take (e + 2) buf)) \<and> suffix EOI (drop s (take (e + 2) buf))"
proof -
  have "frame_loop delimiter [] (map Inr pre @ Inr chunk # rest) =
        frame_loop delimiter ([] @ concat pre) (Inr chunk # rest)"
    by (rule frame_loop_not_ready) (use assms(1) in simp)
  also have "\<dots> = Inr (Some (drop s (take (e + 2) buf)), drop (e + 2) buf)"
    using frame_loop_fire[of delimiter "concat pre" chunk s e rest] assms(2-5) by simp
  finally show ?thesis using span_shape[OF assms(4,5,6)] by simp
qed

text \<open>
  Two chunks that split the delimiter, a frame of five bytes, and one byte after it.
\<close>

theorem frame_loop_emits_first_span_witness:
  "frame_loop (encode ''--frame'') []
     [Inr (encode ''--fr''), Inr (encode ''ame'' @ [0xFF, 0xD8, 0, 0xFF, 0xD9, 0x0D]), Inr [0x0A]] =
     Inr (Some [0xFF, 0xD8, 0, 0xFF, 0xD9], [0x0D]) \<and>
   prefix SOI [0xFF, 0xD8, 0, 0xFF, 0xD9] \<and> suffix EOI [0xFF, 0xD8, 0, 0xFF, 0xD9]"
proof -
  define buf where "buf = concat [encode ''--fr''] @ (encode ''ame'' @ [0xFF, 0xD8, 0, 0xFF, 0xD9, 0x0D])"
  have h1: "\<not> pass_ready (encode ''--frame'') (concat [encode ''--fr''])"
    by (simp add: pass_ready_code encode_def utf8_def SOI_def py_in_def py_find_def)
  have h3: "sublist (encode ''--frame'') buf"
    by (simp add: buf_def encode_def utf8_def py_in_def py_find_def flip: py_in_sublist)
  have h4: "first_at SOI buf 7"
    by (simp add: buf_def encode_def utf8_def SOI_def py_find_def flip: py_find_eq_iff)
  have h5: "first_at EOI buf 10"
    by (simp add: buf_def encode_def utf8_def EOI_def py_find_def flip: py_find_eq_iff)
  have h6: "(7::nat) < 10" by simp
  show ?thesis
    using frame_loop_emits_first_span[OF h1 buf_def h3 h4 h5 h6, of "[Inr [0x0A]]"]
    by (simp add: buf_def encode_def utf8_def)
qed

text \<open>
  Claim C1 as it is stated fails: a buffer that holds a complete span and no boundary
  delimiter gives no frame, since line 82 looks for the markers only once the delimiter
  is in the buffer.
\<close>

theorem frame_needs_boundary_counterexample:
  "py_find [0xFF, 0xD8, 0, 0xFF, 0xD9] SOI = 0 \<and> py_find [0xFF, 0xD8, 0, 0xFF, 0xD9] EOI = 3 \<and>
   frame_loop (encode ''--frame'') [] [Inr [0xFF, 0xD8, 0, 0xFF, 0xD9]] =
     Inr (None, [0xFF, 0xD8, 0, 0xFF, 0xD9])"
  by (simp add: py_find_def py_in_def encode_def utf8_def SOI_def EOI_def)

text \<open>
  Claim C2: an end marker before any start marker, and no complete span. The claim says
  that nothing is emitted. Both searches of lines 84 and 85 start at the beginning of
  the buffer and line 87 does not compare the two positions, so the slice of line 89 is
  empty and \<^verbatim>\<open>get_camera_frame\<close> returns the empty \<^verbatim>\<open>bytes\<close> value as a frame.
\<close>

theorem dangling_end_marker_emits_empty_frame:
  "fst (get_camera_frame
     (\<lambda>n req. Inr \<lparr>status_code = 200,
        headers = [(''Content-Type'', ''multipart/x-mixed-replace;boundary=frame'')],
        json_body = Inr JNull,
        iter_content = [Inr (encode ''--frame'' @ [0xFF, 0xD9, 0, 0xFF, 0xD8])]\<rparr>) []) =
   Inr (Some [])"
  by (simp add: get_camera_frame_def requests_send_def camera_frame_try_def try_bind_def
      header_def lower_def lower_char_def char_of_eq_iff py_split_def
      py_find_def py_in_def encode_def utf8_def SOI_def EOI_def py_slice_def py_slice_from_def
      clamp_index_def)

text \<open>
  Claim C3: every emitted frame begins with the start marker and ends with the end
  marker. A stray end marker followed by a complete frame makes the loop return
  the empty \<^verbatim>\<open>bytes\<close> value, which has neither marker.
\<close>

theorem emitted_frame_without_markers:
  "frame_loop (encode ''--frame'') []
     [Inr (encode ''--frame'' @ [0xFF, 0xD9]), Inr [0xFF, 0xD8, 0, 0xFF, 0xD9]] =
     Inr (Some [], [0xFF, 0xD8, 0, 0xFF, 0xD9]) \<and> \<not> prefix SOI [] \<and> \<not> suffix EOI []"
  by (simp add: py_find_def py_in_def encode_def utf8_def SOI_def EOI_def py_slice_def py_slice_from_def
      clamp_index_def)

section \<open>What the function returns: claim C8\<close>

lemma get_camera_frame_fst:
  "fst (get_camera_frame up log) =
     (case camera_frame_try (case up (length log) (GET OCTOPRINT_WEBCAM_URL) of Inl e \<Rightarrow> Inl (RequestException e) | Inr r \<Rightarrow> Inr r)
      of Inl e \<Rightarrow> Inr None | Inr frame \<Rightarrow> Inr frame)"
  by (simp add: get_camera_frame_def requests_send_def)

text \<open>
  The handler \<^verbatim>\<open>except Exception\<close> leaves no exception to the caller: the function
  returns a value for every upstream outcome.
\<close>

lemma get_camera_frame_returns: "\<exists>frame. fst (get_camera_frame up log) = Inr frame"
  by (simp add: get_camera_frame_fst split: sum.split)

text \<open>
  The value is \<open>None\<close> when the request raises, when the status is not 200, and when
  the stream ends, or breaks with an exception, before the buffer has held the
  delimiter and both markers.
\<close>

lemma get_camera_frame_none:
  "(up (length log) (GET OCTOPRINT_WEBCAM_URL) = Inl err \<longrightarrow>
      fst (get_camera_frame up log) = Inr None) \<and>
   (up (length log) (GET OCTOPRINT_WEBCAM_URL) = Inr response \<and> status_code response \<noteq> 200 \<longrightarrow>
      fst (get_camera_frame up log) = Inr None) \<and>
   (up (length log) (GET OCTOPRINT_WEBCAM_URL) = Inr response \<and> status_code response = 200 \<and>
    header (headers response) ''Content-Type'' = Inr content_type \<and>
    \<not> pass_ready (encode (''--'' @ last (py_split content_type ''boundary=''))) (concat chunks) \<and>
    (iter_content response = map Inr chunks \<or> iter_content response = map Inr chunks @ Inl e # rest) \<longrightarrow>
      fst (get_camera_frame up log) = Inr None)"
proof (intro conjI impI)
  show "fst (get_camera_frame up log) = Inr None"
    if "up (length log) (GET OCTOPRINT_WEBCAM_URL) = Inl err"
    using that by (simp add: get_camera_frame_fst camera_frame_try_def try_bind_def)
  show "fst (get_camera_frame up log) = Inr None"
    if "up (length log) (GET OCTOPRINT_WEBCAM_URL) = Inr response \<and> status_code response \<noteq> 200"
    using that by (simp add: get_camera_frame_fst camera_frame_try_def try_bind_def)
  show "fst (get_camera_frame up log) = Inr None"
    if h: "up (length log) (GET OCTOPRINT_WEBCAM_URL) = Inr response \<and> status_code response = 200 \<and>
    header (headers response) ''Content-Type'' = Inr content_type \<and>
    \<not> pass_ready (encode (''--'' @ last (py_split content_type ''boundary=''))) (concat chunks) \<and>
    (iter_content response = map Inr chunks \<or> iter_content response = map Inr chunks @ Inl e # rest)"
  proof -
    from h have nr: "\<not> pass_ready (encode (''--'' @ last (py_split content_type ''boundary=''))) (concat chunks)"
      by simp
    from h have "iter_content response = map Inr chunks \<or> iter_content response = map Inr chunks @ Inl e # rest"
      by simp
    then show ?thesis
    proof
      assume ic: "iter_content response = map Inr chunks"
      from frame_loop_ends[OF nr] obtain buffer where
        "frame_loop (encode (''--'' @ last (py_split content_type ''boundary=''))) [] (map Inr chunks) = Inr (None, buffer)" ..
      with h ic show ?thesis
        by (simp add: get_camera_frame_fst camera_frame_try_def try_bind_def Let_def)
    next
      assume ic: "iter_content response = map Inr chunks @ Inl e # rest"
      with h frame_loop_raises[OF nr, of e rest] show ?thesis
        by (simp add: get_camera_frame_fst camera_frame_try_def try_bind_def Let_def)
    qed
  qed
qed

text \<open>
  Claim C8: the function raises nothing and returns \<open>None\<close> when the stream ends
  without a complete frame. It raises nothing, as shown above. On a stream that ends
  after the delimiter, an end marker and then a start marker, with no end marker after
  the start marker, the function returns the empty \<^verbatim>\<open>bytes\<close> value and not \<open>None\<close>:
  lines 84 to 87 do not compare the positions of the two markers.
\<close>

theorem ended_stream_returns_empty_frame:
  "fst (get_camera_frame
     (\<lambda>n req. Inr \<lparr>status_code = 200,
        headers = [(''Content-Type'', ''multipart/x-mixed-replace;boundary=frame'')],
        json_body = Inr JNull,
        iter_content = [Inr (encode ''--frame''),
                        Inr [0xFF, 0xD9, 0x0D, 0x0A, 0xFF, 0xD8, 0]]\<rparr>) []) =
   Inr (Some []) \<and>
   py_find (encode ''--frame'' @ [0xFF, 0xD9, 0x0D, 0x0A, 0xFF, 0xD8, 0]) SOI = 11 \<and>
   py_find (drop 11 (encode ''--frame'' @ [0xFF, 0xD9, 0x0D, 0x0A, 0xFF, 0xD8, 0])) EOI = - 1"
  by (simp add: get_camera_frame_def requests_send_def camera_frame_try_def try_bind_def
      header_def lower_def lower_char_def char_of_eq_iff py_split_def
      py_find_def py_in_def encode_def utf8_def SOI_def EOI_def py_slice_def py_slice_from_def
      clamp_index_def)

section \<open>The camera endpoints: claims C4, C5\<close>

lemma stream_camera_fst:
  "fst (stream_camera up log) =
     (case up (length log) (GET OCTOPRINT_WEBCAM_URL) of
        Inl e \<Rightarrow> Inl (HTTPException 500 (''Error connecting to the camera stream: '' @ str_req_exc e))
      | Inr response \<Rightarrow>
          if status_code response \<noteq> 200 then Inl (HTTPException 503 ''Camera stream is not available'')
          else Inr \<lparr>content = iter_content response,
                    media_type = ''multipart/x-mixed-replace; boundary=frame''\<rparr>)"
  by (simp add: stream_camera_def requests_send_def try_bind_def split: sum.split)

text \<open>
  Claim C4, as the code has it: with an upstream status of 200 the endpoint answers 200
  and streams the upstream body under the media type
  \<^verbatim>\<open>multipart/x-mixed-replace; boundary=frame\<close>; with any other upstream status it
  fails with 503; when the request raises (connection error, timeout) it fails with
  500 and a detail that starts with \<^verbatim>\<open>Error connecting to the camera stream: \<close>.
\<close>

theorem stream_camera_statuses:
  "(up (length log) (GET OCTOPRINT_WEBCAM_URL) = Inr response \<and> status_code response = 200 \<longrightarrow>
      fst (stream_camera up log) =
        Inr \<lparr>content = iter_content response,
             media_type = ''multipart/x-mixed-replace; boundary=frame''\<rparr> \<and>
      http_status (fst (stream_camera up log)) = 200) \<and>
   (up (length log) (GET OCTOPRINT_WEBCAM_URL) = Inr response \<and> status_code response \<noteq> 200 \<longrightarrow>
      fst (stream_camera up log) = Inl (HTTPException 503 ''Camera stream is not available'') \<and>
      http_status (fst (stream_camera up log)) = 503) \<and>
   (up (length log) (GET OCTOPRINT_WEBCAM_URL) = Inl err \<longrightarrow>
      fst (stream_camera up log) =
        Inl (HTTPException 500 (''Error connecting to the camera stream: '' @ str_req_exc err)) \<and>
      http_status (fst (stream_camera up log)) = 500)"
  by (simp add: stream_camera_fst http_status_def)

theorem stream_camera_statuses_witness:
  "http_status (fst (stream_camera (\<lambda>n req. Inr \<lparr>status_code = 200, headers = [],
       json_body = Inr JNull, iter_content = [Inr [0xFF, 0xD8]]\<rparr>) [])) = 200 \<and>
   http_status (fst (stream_camera (\<lambda>n req. Inr \<lparr>status_code = 404, headers = [],
       json_body = Inr JNull, iter_content = []\<rparr>) [])) = 503 \<and>
   fst (stream_camera (\<lambda>n req. Inl (ConnectionError ''refused'')) []) =
     Inl (HTTPException 500 ''Error connecting to the camera stream: refused'')"
proof -
  let ?r1 = "\<lparr>status_code = 200, headers = [], json_body = Inr JNull, iter_content = [Inr [0xFF, 0xD8 :: byte]]\<rparr>"
  let ?r2 = "\<lparr>status_code = 404, headers = [], json_body = Inr JNull, iter_content = []\<rparr>"
  have a: "http_status (fst (stream_camera (\<lambda>n req. Inr ?r1) [])) = 200"
    using stream_camera_statuses[of "\<lambda>n req. Inr ?r1" "[]" ?r1] by (simp add: http_status_def)
  have b: "http_status (fst (stream_camera (\<lambda>n req. Inr ?r2) [])) = 503"
    using stream_camera_statuses[of "\<lambda>n req. Inr ?r2" "[]" ?r2] by (simp add: http_status_def)
  have c: "fst (stream_camera (\<lambda>n req. Inl (ConnectionError ''refused'')) []) =
     Inl (HTTPException 500 ''Error connecting to the camera stream: refused'')"
    using stream_camera_statuses[of "\<lambda>n req. Inl (ConnectionError ''refused'')" "[]" _ "ConnectionError ''refused''"]
    by simp
  from a b c show ?thesis by blast
qed

text \<open>
  Claim C4 as it is stated fails: a timeout is answered with 500, by the handler of
  lines 367 and 368, and not with 503.
\<close>

theorem stream_camera_timeout_counterexample:
  "http_status (fst (stream_camera (\<lambda>n req. Inl (Timeout ''Read timed out.'')) [])) = 500"
  by (simp add: stream_camera_def requests_send_def try_bind_def http_status_def)




section \<open>The printer endpoints: claims C6, C9\<close>

text \<open>
  Claim C6, as the code has it: when the printer's API answers \<^verbatim>\<open>GET /printer\<close> or
  \<^verbatim>\<open>GET /files\<close> with a status other than 200, the operation fails with that same
  status and with a fixed detail of its own, and it has made exactly one request.
\<close>

theorem facade_error_status:
  "(up (length log) (GET (OCTOPRINT_URL @ ''/printer'')) = Inr response \<and>
    status_code response \<noteq> 200 \<longrightarrow>
      get_printer_status up log =
        (Inl (HTTPException (status_code response) ''Failed to fetch data from OctoPrint''),
         log @ [GET (OCTOPRINT_URL @ ''/printer'')])) \<and>
   (up (length log) (GET (OCTOPRINT_URL @ ''/files'')) = Inr response \<and>
    status_code response \<noteq> 200 \<longrightarrow>
      list_files up log =
        (Inl (HTTPException (status_code response) ''Failed to fetch file list from OctoPrint''),
         log @ [GET (OCTOPRINT_URL @ ''/files'')]))"
  by (simp add: get_printer_status_def list_files_def requests_send_def try_bind_def
      except_request_exception_def)

theorem facade_error_status_witness:
  "get_printer_status (\<lambda>n req. Inr \<lparr>status_code = 409, headers = [],
       json_body = Inr (JObj [(''error'', JStr ''Printer is not operational'')]),
       iter_content = []\<rparr>) [] =
     (Inl (HTTPException 409 ''Failed to fetch data from OctoPrint''), [GET ''i/printer'']) \<and>
   list_files (\<lambda>n req. Inr \<lparr>status_code = 409, headers = [],
       json_body = Inr (JObj [(''error'', JStr ''Printer is not operational'')]),
       iter_content = []\<rparr>) [] =
     (Inl (HTTPException 409 ''Failed to fetch file list from OctoPrint''), [GET ''i/files''])"
proof -
  let ?r = "\<lparr>status_code = 409, headers = [],
       json_body = Inr (JObj [(''error'', JStr ''Printer is not operational'')]),
       iter_content = []\<rparr>"
  show ?thesis
    using facade_error_status[of "\<lambda>n req. Inr ?r" "[]" ?r]
    by (simp add: OCTOPRINT_URL_def)
qed

text \<open>
  Claim C6 as it is stated fails: the detail is the fixed text of line 107 and carries
  nothing of what the upstream answered.
\<close>

theorem facade_error_detail_counterexample:
  "fst (get_printer_status (\<lambda>n req. Inr \<lparr>status_code = 409, headers = [],
       json_body = Inr (JObj [(''error'', JStr ''Printer is not operational'')]),
       iter_content = []\<rparr>) []) =
     Inl (HTTPException 409 ''Failed to fetch data from OctoPrint'') \<and>
   \<not> py_in ''Printer is not operational'' ''Failed to fetch data from OctoPrint''"
  by (simp add: get_printer_status_def requests_send_def try_bind_def
      except_request_exception_def py_in_def py_find_def)

text \<open>
  Claim C9: with no axis and a speed, \<^verbatim>\<open>move_printer\<close> does not raise the 400 error
  \<^verbatim>\<open>No movement axis specified\<close>; it posts the one command \<^verbatim>\<open>G0 F{speed}\<close>, which has
  no axis word.
\<close>

theorem move_printer_speed_only:
  "move_x movement = None \<and> move_y movement = None \<and> move_z movement = None \<and>
   move_e movement = None \<and> move_speed movement = Some v \<longrightarrow>
     snd (move_printer fmt up log movement) =
       log @ [POST (OCTOPRINT_URL @ ''/printer/command'')
                (JObj [(''commands'', JArr [JStr (''G0 F'' @ fmt v)])])] \<and>
     fst (move_printer fmt up log movement) \<noteq>
       Inl (HTTPException 400 ''No movement axis specified'')"
  by (auto simp: move_printer_def add_word_def requests_send_def try_bind_def Let_def
      except_request_exception_def split: sum.splits)

theorem move_printer_speed_only_witness:
  "move_printer (\<lambda>f. ''1500.0'') (\<lambda>n req. Inr \<lparr>status_code = 204, headers = [],
       json_body = Inr JNull, iter_content = []\<rparr>) []
     \<lparr>move_x = None, move_y = None, move_z = None, move_e = None, move_speed = Some ()\<rparr> =
   (Inr (JObj [(''message'', JStr ''Sent command: G0 F1500.0'')]),
    [POST ''i/printer/command'' (JObj [(''commands'', JArr [JStr ''G0 F1500.0''])])])"
  using move_printer_speed_only[of "\<lparr>move_x = None, move_y = None, move_z = None, move_e = None, move_speed = Some ()\<rparr>"
      "()" "\<lambda>f. ''1500.0''" "\<lambda>n req. Inr \<lparr>status_code = 204, headers = [],
       json_body = Inr JNull, iter_content = []\<rparr>" "[]"]
  by (simp add: move_printer_def add_word_def requests_send_def try_bind_def Let_def
      except_request_exception_def OCTOPRINT_URL_def)

section \<open>The chat webhook: claims C7, C10\<close>

lemma sublist_dropWhile:
  assumes "sublist kw s" and "kw \<noteq> []" and "\<not> P (hd kw)"
  shows "sublist kw (dropWhile P s)"
proof -
  from assms(1) obtain ps ss where s: "s = ps @ kw @ ss" by (auto simp: sublist_def)
  from assms(2) obtain k ks where kw: "kw = k # ks" by (cases kw) auto
  with assms(3) have nk: "\<not> P k" by simp
  have "sublist kw (dropWhile P (ps @ kw @ ss))"
  proof (induction ps)
    case Nil
    have "dropWhile P ([] @ kw @ ss) = kw @ ss" using nk by (simp add: kw)
    then show ?case by (metis sublist_append_rightI)
  next
    case (Cons p ps)
    show ?case
    proof (cases "P p")
      case True
      with Cons show ?thesis by simp
    next
      case False
      then have "dropWhile P ((p # ps) @ kw @ ss) = (p # ps) @ kw @ ss" by simp
      then show ?thesis by (metis sublist_appendI)
    qed
  qed
  then show ?thesis by (simp add: s)
qed

lemma sublist_dropWhile_conv: "sublist kw (dropWhile P s) \<Longrightarrow> sublist kw s"
  by (metis sublist_append_left takeWhile_dropWhile_id)

lemma sublist_strip:
  assumes "kw \<noteq> []" and "\<not> is_space (hd kw)" and "\<not> is_space (last kw)"
  shows "sublist kw (strip s) \<longleftrightarrow> sublist kw s"
proof
  assume "sublist kw (strip s)"
  then have "sublist (rev kw) (dropWhile is_space (rev (dropWhile is_space s)))"
    unfolding strip_def by (metis rev_rev_ident sublist_rev)
  then have "sublist (rev kw) (rev (dropWhile is_space s))"
    by (rule sublist_dropWhile_conv)
  then have "sublist kw (dropWhile is_space s)" by simp
  then show "sublist kw s" by (rule sublist_dropWhile_conv)
next
  assume "sublist kw s"
  then have "sublist kw (dropWhile is_space s)"
    using assms(1,2) by (rule sublist_dropWhile)
  then have "sublist (rev kw) (rev (dropWhile is_space s))" by simp
  then have "sublist (rev kw) (dropWhile is_space (rev (dropWhile is_space s)))"
    using assms(1,3) by (intro sublist_dropWhile) (simp_all add: hd_rev)
  then show "sublist kw (strip s)"
    unfolding strip_def by (metis rev_rev_ident sublist_rev)
qed

lemma status_in_stripped: "py_in ''status'' (strip s) \<longleftrightarrow> sublist ''status'' s"
  by (simp add: py_in_sublist sublist_strip is_space_def)

lemma files_in_stripped: "py_in ''files'' (strip s) \<longleftrightarrow> sublist ''files'' s"
  by (simp add: py_in_sublist sublist_strip is_space_def)

lemma get_printer_status_log:
  "snd (get_printer_status up log) = log @ [GET (OCTOPRINT_URL @ ''/printer'')]"
  by (simp add: get_printer_status_def requests_send_def)

lemma whatsapp_webhook_unfold:
  "form_get form_data ''Body'' = Some body \<Longrightarrow>
   whatsapp_webhook str_dict up log form_data =
     (if sublist ''status'' (lower body) then
        (try_bind (fst (get_printer_status up log)) (\<lambda>printer_status.
           Inr [''Printer Status: '' @ state printer_status @ [CHR 0x0A]
                  @ ''Temperatures: '' @ str_dict (temperature printer_status)]),
         snd (get_printer_status up log))
      else if sublist ''files'' (lower body) then
        (try_bind (fst (list_files up log)) (\<lambda>files.
           try_bind (subscript files ''files'') (\<lambda>names.
           try_bind (py_join '', '' names) (\<lambda>joined. Inr [''Available Files: '' @ joined]))),
         snd (list_files up log))
      else (Inr [help_message], log))"
  by (simp add: whatsapp_webhook_def Let_def case_prod_beta status_in_stripped files_in_stripped)

lemma list_files_log:
  "snd (list_files up log) = log @ [GET (OCTOPRINT_URL @ ''/files'')]"
  by (simp add: list_files_def requests_send_def)

text \<open>What \<^verbatim>\<open>list_files\<close> returns is a dict with the one key \<^verbatim>\<open>files\<close> and a list.\<close>

lemma list_files_shape:
  "fst (list_files up log) = Inr files \<Longrightarrow> \<exists>items. files = JObj [(''files'', JArr items)]"
  by (auto simp: list_files_def requests_send_def try_bind_def except_request_exception_def
      split: sum.splits if_splits)

text \<open>The join succeeds on a list of strings and raises \<^verbatim>\<open>TypeError\<close> on any other list.\<close>

lemma as_str_JStr: "as_str (JStr s) = Inr s"
  by (simp add: as_str_def)

lemma as_str_Inr: "as_str v = Inr s \<Longrightarrow> v = JStr s"
  by (cases v) (simp_all add: as_str_def)

lemma as_str_Inl: "as_str v = Inl e \<Longrightarrow> \<exists>m. e = TypeError m"
  by (cases v) (auto simp: as_str_def)

lemma try_map_as_str: "try_map as_str (map JStr names) = Inr names"
  by (induction names) (simp_all add: as_str_JStr)

lemma try_map_as_str_Inr: "try_map as_str items = Inr names \<Longrightarrow> items = map JStr names"
proof (induction items arbitrary: names)
  case Nil
  then show ?case by simp
next
  case (Cons v items)
  from Cons.prems obtain s rest where v: "as_str v = Inr s"
    and r: "try_map as_str items = Inr rest" and n: "names = s # rest"
    by (auto split: sum.splits)
  from Cons.IH[OF r] as_str_Inr[OF v] n show ?case by simp
qed

lemma try_map_as_str_Inl: "try_map as_str items = Inl e \<Longrightarrow> \<exists>m. e = TypeError m"
proof (induction items)
  case Nil
  then show ?case by simp
next
  case (Cons v items)
  show ?case
  proof (cases "as_str v")
    case (Inl e')
    with Cons.prems have "e = e'" by simp
    with as_str_Inl[OF Inl] show ?thesis by simp
  next
    case (Inr s)
    with Cons.prems have "try_map as_str items = Inl e"
      by (auto split: sum.splits)
    then show ?thesis by (rule Cons.IH)
  qed
qed

lemma join_names:
  "try_bind (subscript (JObj [(''files'', JArr items)]) ''files'') (\<lambda>names.
     try_bind (py_join sep names) (\<lambda>joined. Inr [prefix_text @ joined])) =
   (case try_map as_str items of
      Inl e \<Rightarrow> Inl e
    | Inr names \<Rightarrow> Inr [prefix_text @ intercalate sep names])"
  by (simp add: try_bind_def py_join_def split: sum.split)

text \<open>
  Claim C7. The Body is the last \<^verbatim>\<open>Body\<close> field of the form. When its lowered text
  contains \<^verbatim>\<open>status\<close>, the webhook makes the one request of \<^verbatim>\<open>get_printer_status\<close> and
  its reply is the status and the temperatures that call returned (an exception of
  the call passes to the caller). Otherwise, when the lowered text contains \<^verbatim>\<open>files\<close>,
  it makes the one request of \<^verbatim>\<open>list_files\<close> and its reply lists the names that call
  returned, joined by a comma and a space (an exception of the call passes to the
  caller, and a name that is not a string raises \<^verbatim>\<open>TypeError\<close>). Any other text is
  answered with the fixed help message, and no request is made.
\<close>

theorem whatsapp_webhook_dispatch:
  "form_get form_data ''Body'' = Some body \<longrightarrow>
   (sublist ''status'' (lower body) \<longrightarrow>
      whatsapp_webhook str_dict up log form_data =
        ((case fst (get_printer_status up log) of
            Inl err \<Rightarrow> Inl err
          | Inr ps \<Rightarrow> Inr [''Printer Status: '' @ state ps @ [CHR 0x0A] @ ''Temperatures: ''
                           @ str_dict (temperature ps)]),
         log @ [GET (OCTOPRINT_URL @ ''/printer'')])) \<and>
   (\<not> sublist ''status'' (lower body) \<and> sublist ''files'' (lower body) \<longrightarrow>
      snd (whatsapp_webhook str_dict up log form_data) = log @ [GET (OCTOPRINT_URL @ ''/files'')] \<and>
      (case fst (list_files up log) of
         Inl err \<Rightarrow> fst (whatsapp_webhook str_dict up log form_data) = Inl err
       | Inr files \<Rightarrow>
           (\<exists>items. files = JObj [(''files'', JArr items)] \<and>
              (\<forall>names. items = map JStr names \<longrightarrow>
                 fst (whatsapp_webhook str_dict up log form_data) =
                   Inr [''Available Files: '' @ intercalate '', '' names]) \<and>
              ((\<forall>names. items \<noteq> map JStr names) \<longrightarrow>
                 (\<exists>m. fst (whatsapp_webhook str_dict up log form_data) = Inl (TypeError m)))))) \<and>
   (\<not> sublist ''status'' (lower body) \<and> \<not> sublist ''files'' (lower body) \<longrightarrow>
      whatsapp_webhook str_dict up log form_data =
        (Inr [''Send 'status' to get printer status or 'files' to list available files.''], log))"
proof (intro impI conjI)
  assume b: "form_get form_data ''Body'' = Some body"
  note w = whatsapp_webhook_unfold[OF b, of str_dict up log]
  show "whatsapp_webhook str_dict up log form_data =
        ((case fst (get_printer_status up log) of
            Inl err \<Rightarrow> Inl err
          | Inr ps \<Rightarrow> Inr [''Printer Status: '' @ state ps @ [CHR 0x0A] @ ''Temperatures: ''
                           @ str_dict (temperature ps)]),
         log @ [GET (OCTOPRINT_URL @ ''/printer'')])"
    if "sublist ''status'' (lower body)"
    using that by (simp add: w get_printer_status_log try_bind_def split: sum.split)
  show "whatsapp_webhook str_dict up log form_data =
        (Inr [''Send 'status' to get printer status or 'files' to list available files.''], log)"
    if "\<not> sublist ''status'' (lower body) \<and> \<not> sublist ''files'' (lower body)"
    using that by (simp add: w help_message_def)
  assume f: "\<not> sublist ''status'' (lower body) \<and> sublist ''files'' (lower body)"
  show "snd (whatsapp_webhook str_dict up log form_data) = log @ [GET (OCTOPRINT_URL @ ''/files'')]"
    using f by (simp add: w list_files_log)
  show "case fst (list_files up log) of
         Inl err \<Rightarrow> fst (whatsapp_webhook str_dict up log form_data) = Inl err
       | Inr files \<Rightarrow>
           (\<exists>items. files = JObj [(''files'', JArr items)] \<and>
              (\<forall>names. items = map JStr names \<longrightarrow>
                 fst (whatsapp_webhook str_dict up log form_data) =
                   Inr [''Available Files: '' @ intercalate '', '' names]) \<and>
              ((\<forall>names. items \<noteq> map JStr names) \<longrightarrow>
                 (\<exists>m. fst (whatsapp_webhook str_dict up log form_data) = Inl (TypeError m))))"
  proof (cases "fst (list_files up log)")
    case (Inl err)
    with f show ?thesis by (simp add: w try_bind_def)
  next
    case (Inr files)
    from list_files_shape[OF Inr] obtain items where fi: "files = JObj [(''files'', JArr items)]" ..
    have r: "fst (whatsapp_webhook str_dict up log form_data) =
        (case try_map as_str items of
           Inl e \<Rightarrow> Inl e
         | Inr names \<Rightarrow> Inr [''Available Files: '' @ intercalate '', '' names])"
      using f Inr join_names[of items "'', ''" "''Available Files: ''"]
      by (simp add: w fi try_bind_def)
    have ok: "fst (whatsapp_webhook str_dict up log form_data) =
                   Inr [''Available Files: '' @ intercalate '', '' names]"
      if "items = map JStr names" for names
      using that by (simp add: r try_map_as_str)
    have bad: "\<exists>m. fst (whatsapp_webhook str_dict up log form_data) = Inl (TypeError m)"
      if no: "\<forall>names. items \<noteq> map JStr names"
    proof (cases "try_map as_str items")
      case (Inl e)
      from try_map_as_str_Inl[OF this] obtain m where "e = TypeError m" ..
      with Inl show ?thesis by (simp add: r)
    next
      case (Inr names)
      from try_map_as_str_Inr[OF this] no show ?thesis by blast
    qed
    from ok bad fi Inr show ?thesis by auto
  qed
qed

text \<open>
  A status message, a files message with two files and a message with neither word;
  each form has an earlier \<^verbatim>\<open>Body\<close> field that is not the one read.
\<close>

theorem whatsapp_webhook_dispatch_witness:
  "whatsapp_webhook (\<lambda>j. ''{}'')
     (\<lambda>n req. Inr \<lparr>status_code = 200, headers = [],
        json_body = Inr (JObj [(''state'', JObj [(''text'', JStr ''Operational'')]),
                               (''temperature'', JObj [])]),
        iter_content = []\<rparr>) []
     [(''Body'', ''files''), (''Body'', '' STATUS please'')] =
     (Inr [''Printer Status: Operational'' @ [CHR 0x0A] @ ''Temperatures: {}''],
      [GET ''i/printer'']) \<and>
   fst (whatsapp_webhook (\<lambda>j. ''{}'')
     (\<lambda>n req. Inr \<lparr>status_code = 200, headers = [],
        json_body = Inr (JObj [(''files'', JArr [JObj [(''name'', JStr ''a.gcode'')],
                                                 JObj [(''name'', JStr ''b.gcode'')]])]),
        iter_content = []\<rparr>) []
     [(''Body'', ''status''), (''Body'', ''Files'')]) =
     Inr [''Available Files: a.gcode, b.gcode''] \<and>
   whatsapp_webhook (\<lambda>j. ''{}'') (\<lambda>n req. Inl (ConnectionError ''refused'')) []
     [(''Body'', ''status''), (''Body'', ''hello'')] =
     (Inr [''Send 'status' to get printer status or 'files' to list available files.''], [])"
proof -
  let ?up1 = "\<lambda>n req. Inr \<lparr>status_code = 200, headers = [],
        json_body = Inr (JObj [(''state'', JObj [(''text'', JStr ''Operational'')]),
                               (''temperature'', JObj [])]),
        iter_content = []\<rparr>"
  let ?up2 = "\<lambda>n req. Inr \<lparr>status_code = 200, headers = [],
        json_body = Inr (JObj [(''files'', JArr [JObj [(''name'', JStr ''a.gcode'')],
                                                 JObj [(''name'', JStr ''b.gcode'')]])]),
        iter_content = []\<rparr>"
  let ?up3 = "\<lambda>n req. Inl (ConnectionError ''refused'')"
  let ?f1 = "[(''Body'', ''files''), (''Body'', '' STATUS please'')]"
  let ?f2 = "[(''Body'', ''status''), (''Body'', ''Files'')]"
  let ?f3 = "[(''Body'', ''status''), (''Body'', ''hello'')]"
  have b1: "form_get ?f1 ''Body'' = Some '' STATUS please''" by (simp add: form_get_def)
  have b2: "form_get ?f2 ''Body'' = Some ''Files''" by (simp add: form_get_def)
  have b3: "form_get ?f3 ''Body'' = Some ''hello''" by (simp add: form_get_def)
  have l1: "lower '' STATUS please'' = '' status please''"
    by (simp add: lower_def lower_char_def char_of_eq_iff)
  have l2: "lower ''Files'' = ''files''"
    by (simp add: lower_def lower_char_def char_of_eq_iff)
  have l3: "lower ''hello'' = ''hello''"
    by (simp add: lower_def lower_char_def char_of_eq_iff)
  have s1: "sublist ''status'' (lower '' STATUS please'')"
    unfolding l1 by (simp add: py_in_def py_find_def flip: py_in_sublist)
  have s2: "\<not> sublist ''status'' (lower ''Files'')" and f2: "sublist ''files'' (lower ''Files'')"
    unfolding l2 by (simp_all add: py_in_def py_find_def flip: py_in_sublist)
  have s3: "\<not> sublist ''status'' (lower ''hello'')" and f3: "\<not> sublist ''files'' (lower ''hello'')"
    unfolding l3 by (simp_all add: py_in_def py_find_def flip: py_in_sublist)
  have g: "fst (get_printer_status ?up1 []) =
     Inr \<lparr>state = ''Operational'', temperature = JObj []\<rparr>"
    by (simp add: get_printer_status_def requests_send_def try_bind_def
        except_request_exception_def PrinterState_def)
  have lf: "fst (list_files ?up2 []) =
     Inr (JObj [(''files'', JArr (map JStr [''a.gcode'', ''b.gcode'']))])"
    by (simp add: list_files_def requests_send_def try_bind_def except_request_exception_def)
  have a: "whatsapp_webhook (\<lambda>j. ''{}'') ?up1 [] ?f1 =
     (Inr [''Printer Status: Operational'' @ [CHR 0x0A] @ ''Temperatures: {}''],
      [GET ''i/printer''])"
    using whatsapp_webhook_dispatch[of ?f1 "'' STATUS please''" "\<lambda>j. ''{}''" ?up1 "[]"] b1 s1 g
    by (simp add: OCTOPRINT_URL_def)
  have "\<exists>items. JObj [(''files'', JArr (map JStr [''a.gcode'', ''b.gcode'']))] =
            JObj [(''files'', JArr items)] \<and>
          (\<forall>names. items = map JStr names \<longrightarrow>
             fst (whatsapp_webhook (\<lambda>j. ''{}'') ?up2 [] ?f2) =
               Inr [''Available Files: '' @ intercalate '', '' names]) \<and>
          ((\<forall>names. items \<noteq> map JStr names) \<longrightarrow>
             (\<exists>m. fst (whatsapp_webhook (\<lambda>j. ''{}'') ?up2 [] ?f2) = Inl (TypeError m)))"
    using whatsapp_webhook_dispatch[of ?f2 "''Files''" "\<lambda>j. ''{}''" ?up2 "[]"] b2 s2 f2
    unfolding lf by simp
  then have "fst (whatsapp_webhook (\<lambda>j. ''{}'') ?up2 [] ?f2) =
               Inr [''Available Files: '' @ intercalate '', '' [''a.gcode'', ''b.gcode'']]"
    by blast
  then have b: "fst (whatsapp_webhook (\<lambda>j. ''{}'') ?up2 [] ?f2) =
     Inr [''Available Files: a.gcode, b.gcode'']"
    by simp
  have c: "whatsapp_webhook (\<lambda>j. ''{}'') ?up3 [] ?f3 =
     (Inr [''Send 'status' to get printer status or 'files' to list available files.''], [])"
    using whatsapp_webhook_dispatch[of ?f3 "''hello''" "\<lambda>j. ''{}''" ?up3 "[]"] b3 s3 f3
    by simp
  from a b c show ?thesis by blast
qed

text \<open>
  Claim C10: when the Body contains both \<^verbatim>\<open>status\<close> and \<^verbatim>\<open>files\<close>, the webhook makes
  the one request \<^verbatim>\<open>GET /printer\<close> and none for the file list, and its result is the
  status reply (or the exception of the status call).
\<close>

theorem whatsapp_webhook_status_first:
  "form_get form_data ''Body'' = Some body \<and>
   sublist ''status'' (lower body) \<and> sublist ''files'' (lower body) \<longrightarrow>
     snd (whatsapp_webhook str_dict up log form_data) = log @ [GET (OCTOPRINT_URL @ ''/printer'')] \<and>
     GET (OCTOPRINT_URL @ ''/files'') \<notin> set (drop (length log) (snd (whatsapp_webhook str_dict up log form_data))) \<and>
     fst (whatsapp_webhook str_dict up log form_data) =
       (case fst (get_printer_status up log) of
          Inl err \<Rightarrow> Inl err
        | Inr ps \<Rightarrow> Inr [''Printer Status: '' @ state ps @ [CHR 0x0A] @ ''Temperatures: ''
               @ str_dict (temperature ps)])"
  by (simp add: whatsapp_webhook_unfold get_printer_status_log try_bind_def split: sum.split)

text \<open>
  A form whose first \<^verbatim>\<open>Body\<close> field has neither word and whose last one has both.
\<close>

theorem whatsapp_webhook_status_first_witness:
  "whatsapp_webhook (\<lambda>j. ''{}'')
     (\<lambda>n req. Inr \<lparr>status_code = 200, headers = [],
        json_body = Inr (JObj [(''state'', JObj [(''text'', JStr ''Operational'')]),
                               (''temperature'', JObj [])]),
        iter_content = []\<rparr>) []
     [(''Body'', ''hello''), (''Body'', ''Status of FILES''), (''From'', ''whatsapp:+100'')] =
   (Inr [''Printer Status: Operational'' @ [CHR 0x0A] @ ''Temperatures: {}''], [GET ''i/printer''])"
proof -
  let ?up = "\<lambda>n req. Inr \<lparr>status_code = 200, headers = [],
        json_body = Inr (JObj [(''state'', JObj [(''text'', JStr ''Operational'')]),
                               (''temperature'', JObj [])]),
        iter_content = []\<rparr>"
  let ?form = "[(''Body'', ''hello''), (''Body'', ''Status of FILES''), (''From'', ''whatsapp:+100'')]"
  have b: "form_get ?form ''Body'' = Some ''Status of FILES''" by (simp add: form_get_def)
  have l: "lower ''Status of FILES'' = ''status of files''"
    by (simp add: lower_def lower_char_def char_of_eq_iff)
  have s: "sublist ''status'' (lower ''Status of FILES'')"
    unfolding l by (simp add: py_in_def py_find_def flip: py_in_sublist)
  have f: "sublist ''files'' (lower ''Status of FILES'')"
    unfolding l by (simp add: py_in_def py_find_def flip: py_in_sublist)
  have g: "get_printer_status ?up [] =
     (Inr \<lparr>state = ''Operational'', temperature = JObj []\<rparr>, [GET ''i/printer''])"
    by (simp add: get_printer_status_def requests_send_def try_bind_def
        except_request_exception_def PrinterState_def OCTOPRINT_URL_def)
  show ?thesis
    using whatsapp_webhook_status_first[of ?form "''Status of FILES''" "\<lambda>j. ''{}''" ?up "[]"] b s f g
    by (simp add: prod_eq_iff OCTOPRINT_URL_def)
qed

end
